theory Spec2Isabelle
  imports Complex_Main "HOL-Library.Log_Nat"
begin

section \<open>Real estate deal analyzer: the calculation core\<close>

text \<open>
  The three helper functions of \<^verbatim>\<open>real_estate_analyzer.py\<close> (lines 15 to 97) and the
  breakeven computation of the page body (lines 323 to 325).

  Amounts are exact real numbers: the literal \<^verbatim>\<open>0.03\<close> is \<open>3/100\<close>, \<^verbatim>\<open>0.0011\<close>
  is \<open>11/10000\<close>, and \<^verbatim>\<open>/\<close> is exact division. This is the arithmetic in which
  the formulas are written down (decimal currency amounts). Python evaluates them in
  binary floating point, which rounds every operation; the section on binary64 below
  models that rounding for the one property that is about rounding itself. The
  dictionaries the functions return have a fixed set of keys and are records here, one
  field per key.

  The exceptions of the arithmetic depend on whether a number is an \<^verbatim>\<open>int\<close> or a
  \<^verbatim>\<open>float\<close>. The functions are therefore given a second time on Python's numbers,
  with dictionaries as maps from keys, for the property that is about which calls return.
\<close>

subsection \<open>Results\<close>

text \<open>The dictionary built at lines 33 to 42.\<close>

record seller_net =
  price :: real
  listing_agent :: real
  buyer_agent :: real
  prep_costs :: real
  holding_costs :: real
  transaction_costs :: real
  total_costs :: real
  net :: real

text \<open>
  The dictionary built at lines 68 to 79. Its key \<^verbatim>\<open>holding_costs\<close> is the field
  \<open>buy_holding_costs\<close>, the seller's dictionary having a key of the same name.
\<close>

record buy_costs =
  purchase_price :: real
  down_payment :: real
  loan_amount :: real
  closing_costs :: real
  seller_agent :: real
  cash_to_acquire :: real
  interest :: real
  buy_holding_costs :: real
  remodel_cost :: real
  total_cash :: real

text \<open>The dictionary built at lines 90 to 97.\<close>

record flip_profit =
  sell_price :: real
  commission :: real
  transfer_fees :: real
  net_proceeds :: real
  profit :: real
  roi :: real

text \<open>
  The exceptions of Python that the three functions can end in: line 88 divides, an
  integer that meets a float is converted to a float first, which fails when it is too
  large, and line 86 to 88 look keys up in the dictionary they are given.
\<close>

datatype py_error = ZeroDivisionError | OverflowError | KeyError

subsection \<open>Seller net proceeds (lines 15 to 42)\<close>

definition calculate_seller_net :: "real \<Rightarrow> bool \<Rightarrow> seller_net" where
  "calculate_seller_net p is_mls =
     (let listing = p * (3 / 100);
          buyer = (if is_mls then p * (2 / 100) else 0);
          prep = (if is_mls then 8000 + 6000 + 1500 + 5000 + 3000 + 1000 else 0);
          holding = (if is_mls then 2000 + 600 + 333 else 0);
          transfer_tax = p * (11 / 10000);
          escrow_fees = 1500;
          total = listing + buyer + prep + holding + transfer_tax + escrow_fees;
          net_amount = p - total
      in \<lparr> price = p,
           listing_agent = listing,
           buyer_agent = buyer,
           prep_costs = prep,
           holding_costs = holding,
           transaction_costs = transfer_tax + escrow_fees,
           total_costs = total,
           net = net_amount \<rparr>)"

text \<open>The parameter \<^verbatim>\<open>is_mls\<close> may be left out of a call; it is then \<^verbatim>\<open>True\<close>.\<close>

definition calculate_seller_net_call :: "real \<Rightarrow> bool option \<Rightarrow> seller_net" where
  "calculate_seller_net_call p is_mls =
     calculate_seller_net p (case is_mls of None \<Rightarrow> True | Some b \<Rightarrow> b)"

subsection \<open>Buyer all-in costs (lines 44 to 79)\<close>

definition calculate_buyer_costs :: "real \<Rightarrow> real \<Rightarrow> real \<Rightarrow> real \<Rightarrow> real \<Rightarrow> buy_costs" where
  "calculate_buyer_costs pp down_pct interest_rate remodel months =
     (let down = pp * (down_pct / 100);
          loan = pp * (1 - down_pct / 100);
          loan_origination = loan * (1 / 100);
          closing = loan_origination + 600 + 500 + 1500 + 1500 + 200;
          agent = pp * (3 / 100);
          acquire = down + closing + agent;
          monthly_interest = (loan * (interest_rate / 100)) / 12;
          total_interest = monthly_interest * months;
          monthly_holding = 1000 + 300 + 167;
          holding = total_interest + (monthly_holding * months);
          total = acquire + holding + remodel
      in \<lparr> purchase_price = pp,
           down_payment = down,
           loan_amount = loan,
           closing_costs = closing,
           seller_agent = agent,
           cash_to_acquire = acquire,
           interest = total_interest,
           buy_holding_costs = holding,
           remodel_cost = remodel,
           total_cash = total \<rparr>)"

text \<open>The parameter \<^verbatim>\<open>months\<close> may be left out of a call; it is then \<^verbatim>\<open>4\<close>.\<close>

definition calculate_buyer_costs_call ::
  "real \<Rightarrow> real \<Rightarrow> real \<Rightarrow> real \<Rightarrow> real option \<Rightarrow> buy_costs" where
  "calculate_buyer_costs_call pp down_pct interest_rate remodel months =
     calculate_buyer_costs pp down_pct interest_rate remodel
       (case months of None \<Rightarrow> 4 | Some m \<Rightarrow> m)"

subsection \<open>Flip profit (lines 81 to 97)\<close>

text \<open>
  Line 88 divides by \<^verbatim>\<open>buy_costs['total_cash']\<close>. Python raises
  \<^verbatim>\<open>ZeroDivisionError\<close> when the divisor is zero, whether it is an integer or a float,
  and the function then returns nothing.
\<close>

definition calculate_flip_profit :: "buy_costs \<Rightarrow> real \<Rightarrow> py_error + flip_profit" where
  "calculate_flip_profit b sp =
     (let commission_4pct = sp * (4 / 100);
          fees = (sp * (11 / 10000)) + 3000;
          proceeds = sp - commission_4pct - fees - loan_amount b;
          gain = proceeds - total_cash b
      in if total_cash b = 0 then Inl ZeroDivisionError
         else Inr \<lparr> sell_price = sp,
                    commission = commission_4pct,
                    transfer_fees = fees,
                    net_proceeds = proceeds,
                    profit = gain,
                    roi = (gain / total_cash b) * 100 \<rparr>)"

subsection \<open>Breakeven sale price (lines 323 to 325)\<close>

definition breakeven_price :: "buy_costs \<Rightarrow> real" where
  "breakeven_price b =
     (let total_all_in = total_cash b + loan_amount b;
          selling_percent = 4 / 100 + 11 / 10000 + (3000 / 1000000)
      in total_all_in / (1 - selling_percent))"

subsection \<open>Binary64 arithmetic (lines 46 and 47)\<close>

text \<open>
  Python's \<^verbatim>\<open>float\<close> is IEEE 754 binary64: a finite number is \<open>m * 2^e\<close> with
  \<open>\<bar>m\<bar> < 2^53\<close> and \<open>-1074 \<le> e \<le> 971\<close>, and every operation returns the exact result
  rounded to the nearest such number, a tie going to the even \<open>m\<close>. A result whose
  rounding reaches \<open>2^1024\<close> is an infinity, which is \<open>None\<close> here.
\<close>

definition round_half_even :: "real \<Rightarrow> int" where
  "round_half_even q =
     (let f = \<lfloor>q\<rfloor>; d = q - of_int f
      in if d < 1 / 2 then f else if 1 / 2 < d then f + 1 else if even f then f else f + 1)"

definition pow2 :: "int \<Rightarrow> real" where
  "pow2 e = (if 0 \<le> e then 2 ^ nat e else 1 / 2 ^ nat (- e))"

text \<open>The exponent \<open>e\<close> with \<open>2^e \<le> x < 2^(e+1)\<close>, for \<open>x > 0\<close>.\<close>

definition floor_log2 :: "real \<Rightarrow> int" where
  "floor_log2 x = (if 1 \<le> x then bitlen \<lfloor>x\<rfloor> - 1 else - bitlen (\<lceil>1 / x\<rceil> - 1))"

definition round_b64 :: "real \<Rightarrow> real option" where
  "round_b64 x =
     (if x = 0 then Some 0
      else let e = max (floor_log2 \<bar>x\<bar>) (- 1022);
               u = pow2 (e - 52);
               y = of_int (round_half_even (x / u)) * u
           in if 2 ^ 1024 \<le> \<bar>y\<bar> then None else Some y)"

text \<open>
  Lines 46 and 47 as Python evaluates them, on arguments that binary64 holds exactly (as
  it does every integer below \<open>2^53\<close>): \<^verbatim>\<open>purchase_price * (down_pct / 100)\<close> and
  \<^verbatim>\<open>purchase_price * (1 - down_pct / 100)\<close>, and the sum of two floats.
\<close>

definition down_payment_b64 :: "real \<Rightarrow> real \<Rightarrow> real option" where
  "down_payment_b64 pp down_pct =
     (case round_b64 (down_pct / 100) of
        None \<Rightarrow> None
      | Some q \<Rightarrow> round_b64 (pp * q))"

definition loan_amount_b64 :: "real \<Rightarrow> real \<Rightarrow> real option" where
  "loan_amount_b64 pp down_pct =
     (case round_b64 (down_pct / 100) of
        None \<Rightarrow> None
      | Some q \<Rightarrow>
          (case round_b64 (1 - q) of
             None \<Rightarrow> None
           | Some t \<Rightarrow> round_b64 (pp * t)))"

definition add_b64 :: "real option \<Rightarrow> real option \<Rightarrow> real option" where
  "add_b64 a b =
     (case a of
        None \<Rightarrow> None
      | Some x \<Rightarrow> (case b of None \<Rightarrow> None | Some y \<Rightarrow> round_b64 (x + y)))"

subsection \<open>The functions on Python's numbers\<close>




















section \<open>Seller net proceeds\<close>

text \<open>
  Claim C1, as stated: for every price \<open>p \<ge> 0\<close> the net proceeds of a listed sale are
  \<open>p - (p*0.03 + p*0.02 + 25000 + 2933 + p*0.0011 + 1500)\<close>. The preparation costs of
  line 21 add up to 24500, not to 25000, so the stated value is 500 too low: at the price
  950000 the function returns 872522, the stated formula gives 872022.
\<close>

theorem calculate_seller_net_formula_counterexample:
  "net (calculate_seller_net 950000 True) = 872522 \<and>
   net (calculate_seller_net 950000 True) \<noteq>
     950000 - (950000 * (3 / 100) + 950000 * (2 / 100) + 25000 + 2933
               + 950000 * (11 / 10000) + 1500)"
  by (simp add: calculate_seller_net_def Let_def)

text \<open>
  Claim C1, amended: for every price \<open>p \<ge> 0\<close>, the net proceeds of a listed sale are
  \<open>p - (p*0.03 + p*0.02 + 24500 + 2933 + p*0.0011 + 1500)\<close>, those of a sale that is not
  listed are \<open>p - (p*0.03 + p*0.0011 + 1500)\<close>, and in both cases the returned record has
  \<open>net = price - total_costs\<close>.
\<close>

theorem calculate_seller_net_formula:
  assumes "0 \<le> p"
  shows "net (calculate_seller_net p True) =
           p - (p * (3 / 100) + p * (2 / 100) + 24500 + 2933 + p * (11 / 10000) + 1500)
       \<and> net (calculate_seller_net p False) = p - (p * (3 / 100) + p * (11 / 10000) + 1500)
       \<and> net (calculate_seller_net p is_mls) =
           price (calculate_seller_net p is_mls) - total_costs (calculate_seller_net p is_mls)"
  by (simp add: calculate_seller_net_def Let_def)

theorem calculate_seller_net_formula_witness:
  "(0::real) \<le> 950000
   \<and> net (calculate_seller_net 950000 True) = 872522
   \<and> net (calculate_seller_net 950000 False) = 918955
   \<and> total_costs (calculate_seller_net 950000 True) = 77478"
  using calculate_seller_net_formula [of 950000 True]
  by (simp add: calculate_seller_net_def Let_def)

text \<open>
  Claim C4. For every price \<open>p \<ge> 0\<close>, a listed sale nets no more than a sale at the same
  price that is not listed.
\<close>

theorem calculate_seller_net_mls_le_direct:
  assumes "0 \<le> p"
  shows "net (calculate_seller_net p True) \<le> net (calculate_seller_net p False)"
  using assms by (simp add: calculate_seller_net_def Let_def)

theorem calculate_seller_net_mls_le_direct_witness:
  "(0::real) \<le> 950000 \<and>
   net (calculate_seller_net 950000 True) \<le> net (calculate_seller_net 950000 False) \<and>
   net (calculate_seller_net 950000 False) - net (calculate_seller_net 950000 True) = 46433"
  using calculate_seller_net_mls_le_direct [of 950000]
  by (simp add: calculate_seller_net_def Let_def)

section \<open>Flip profit\<close>



text \<open>
  Claim C10. The flip calculation reads two fields of the buyer costs, \<open>loan_amount\<close> and
  \<open>total_cash\<close>: two records that agree on them give the same outcome at every sale price,
  whatever their other fields hold.
\<close>

theorem calculate_flip_profit_reads_two_fields:
  assumes "loan_amount b = loan_amount b'" and "total_cash b = total_cash b'"
  shows "calculate_flip_profit b sp = calculate_flip_profit b' sp"
  using assms by (simp add: calculate_flip_profit_def Let_def)

theorem calculate_flip_profit_reads_two_fields_witness:
  "calculate_flip_profit
     \<lparr> purchase_price = 900000, down_payment = 90000, loan_amount = 810000,
       closing_costs = 12400, seller_agent = 27000, cash_to_acquire = 129400,
       interest = 16200, buy_holding_costs = 22068, remodel_cost = 100000,
       total_cash = 251468 \<rparr> 1100000
   = calculate_flip_profit
     \<lparr> purchase_price = 1, down_payment = 2, loan_amount = 810000,
       closing_costs = 3, seller_agent = 4, cash_to_acquire = 5,
       interest = 6, buy_holding_costs = 7, remodel_cost = 8,
       total_cash = 251468 \<rparr> 1100000"
  using calculate_flip_profit_reads_two_fields
    [of "\<lparr> purchase_price = 900000, down_payment = 90000, loan_amount = 810000,
       closing_costs = 12400, seller_agent = 27000, cash_to_acquire = 129400,
       interest = 16200, buy_holding_costs = 22068, remodel_cost = 100000,
       total_cash = 251468 \<rparr>"
     "\<lparr> purchase_price = 1, down_payment = 2, loan_amount = 810000,
       closing_costs = 3, seller_agent = 4, cash_to_acquire = 5,
       interest = 6, buy_holding_costs = 7, remodel_cost = 8,
       total_cash = 251468 \<rparr>" 1100000]
  by simp

section \<open>The worked scenario\<close>

text \<open>
  Claim C5. A purchase at 900000 with 10 percent down, 6 percent interest, 100000 of
  remodelling and 4 months of holding costs 251468 in cash (down payment 90000, loan
  810000, closing costs 12400, cash to acquire 129400, holding costs 22068); sold at
  1100000 it pays a commission of 44000 and fees of 4210, leaves net proceeds of 241790,
  a profit of -9678 and a return of about -3.85 percent.
\<close>

theorem worked_scenario:
  "calculate_buyer_costs 900000 10 6 100000 4 =
     \<lparr> purchase_price = 900000, down_payment = 90000, loan_amount = 810000,
       closing_costs = 12400, seller_agent = 27000, cash_to_acquire = 129400,
       interest = 16200, buy_holding_costs = 22068, remodel_cost = 100000,
       total_cash = 251468 \<rparr>
   \<and> calculate_flip_profit (calculate_buyer_costs 900000 10 6 100000 4) 1100000 =
     Inr \<lparr> sell_price = 1100000, commission = 44000, transfer_fees = 4210,
           net_proceeds = 241790, profit = - 9678, roi = - (9678 / 251468) * 100 \<rparr>
   \<and> \<bar>- (9678 / 251468) * 100 - (- 385 / 100 :: real)\<bar> < 5 / 1000"
  by (simp add: calculate_buyer_costs_def calculate_flip_profit_def Let_def)

section \<open>Breakeven\<close>

text \<open>
  Claim C6. For buyer costs with \<open>total_cash > 0\<close>, selling at the breakeven price gives a
  profit that is the error of reading the fixed fee of 3000 as the fraction 3000/1000000
  of the sale price, and nothing else: the profit is \<open>3000/1000000 * s - 3000\<close> for the
  breakeven price \<open>s\<close>, three thousandths of the distance of \<open>s\<close> from 1000000, and it is
  0 exactly when \<open>s\<close> is 1000000.
\<close>

theorem breakeven_round_trip:
  assumes "0 < total_cash b"
  shows "\<exists>r. calculate_flip_profit b (breakeven_price b) = Inr r
           \<and> profit r = (3000 / 1000000) * breakeven_price b - 3000
           \<and> \<bar>profit r\<bar> = (3000 / 1000000) * \<bar>breakeven_price b - 1000000\<bar>
           \<and> (profit r = 0) = (breakeven_price b = 1000000)"
proof -
  define s where "s = breakeven_price b"
  have all_in: "total_cash b + loan_amount b = s * (9559 / 10000)"
    by (simp add: s_def breakeven_price_def Let_def)
  define g where "g = s - s * (4 / 100) - (s * (11 / 10000) + 3000) - loan_amount b - total_cash b"
  have g_eq: "g = (3000 / 1000000) * s - 3000"
    using all_in by (simp add: g_def algebra_simps)
  have g_abs: "\<bar>g\<bar> = (3000 / 1000000) * \<bar>s - 1000000\<bar>"
  proof -
    have "g = (3000 / 1000000) * (s - 1000000)"
      by (simp add: g_eq algebra_simps)
    then have "\<bar>g\<bar> = \<bar>3000 / 1000000\<bar> * \<bar>s - 1000000\<bar>"
      by (simp only: abs_mult)
    then show ?thesis
      by simp
  qed
  have g_zero: "(g = 0) = (s = 1000000)"
    by (auto simp add: g_eq)
  have "calculate_flip_profit b s =
          Inr \<lparr> sell_price = s, commission = s * (4 / 100),
                transfer_fees = s * (11 / 10000) + 3000,
                net_proceeds = s - s * (4 / 100) - (s * (11 / 10000) + 3000) - loan_amount b,
                profit = g, roi = (g / total_cash b) * 100 \<rparr>"
    using assms by (simp add: calculate_flip_profit_def Let_def g_def)
  then show ?thesis
    using g_eq g_abs g_zero unfolding s_def by simp
qed

theorem breakeven_round_trip_witness:
  "0 < total_cash \<lparr> purchase_price = 900000, down_payment = 90000, loan_amount = 810000,
         closing_costs = 12400, seller_agent = 27000, cash_to_acquire = 129400,
         interest = 16200, buy_holding_costs = 0, remodel_cost = 16500,
         total_cash = 145900 \<rparr>
   \<and> breakeven_price \<lparr> purchase_price = 900000, down_payment = 90000, loan_amount = 810000,
         closing_costs = 12400, seller_agent = 27000, cash_to_acquire = 129400,
         interest = 16200, buy_holding_costs = 0, remodel_cost = 16500,
         total_cash = 145900 \<rparr> = 1000000
   \<and> (\<exists>r. calculate_flip_profit \<lparr> purchase_price = 900000, down_payment = 90000,
         loan_amount = 810000, closing_costs = 12400, seller_agent = 27000,
         cash_to_acquire = 129400, interest = 16200, buy_holding_costs = 0,
         remodel_cost = 16500, total_cash = 145900 \<rparr> 1000000 = Inr r \<and> profit r = 0)"
  using breakeven_round_trip
    [of "\<lparr> purchase_price = 900000, down_payment = 90000, loan_amount = 810000,
         closing_costs = 12400, seller_agent = 27000, cash_to_acquire = 129400,
         interest = 16200, buy_holding_costs = 0, remodel_cost = 16500,
         total_cash = 145900 \<rparr>"]
  by (simp add: breakeven_price_def Let_def)

section \<open>Inputs outside the stated domain\<close>



section \<open>Constants and defaults\<close>

text \<open>
  Claim C8, as stated: every rate and fixed amount is a default that the caller can
  replace, the preparation costs of a listed sale being 25000. A call of
  \<open>calculate_seller_net\<close> passes a price and, if it wants, the listing flag, and nothing
  else: at the price 950000 each of the three ways of calling it charges the listing
  agent's 3 percent, 28500. The preparation costs are 24500.
\<close>

theorem constants_overridable_counterexample:
  "listing_agent (calculate_seller_net_call 950000 None) = 28500
   \<and> listing_agent (calculate_seller_net_call 950000 (Some True)) = 28500
   \<and> listing_agent (calculate_seller_net_call 950000 (Some False)) = 28500
   \<and> prep_costs (calculate_seller_net_call 950000 None) = 24500
   \<and> prep_costs (calculate_seller_net_call 950000 None) \<noteq> 25000"
  by (simp add: calculate_seller_net_call_def calculate_seller_net_def Let_def)

text \<open>
  Claim C8, amended: two parameters have defaults that the caller can replace, the
  holding months (4) and the listing flag (listed). Every rate and fixed amount is a
  literal of the function bodies that no argument changes: listing agent 0.03, buyer
  agent 0.02, preparation costs 24500 and holding costs 2933 of a listed sale, transfer
  tax 0.0011, escrow fee 1500, loan origination 0.01, fixed closing fees 4300, seller's
  agent at acquisition 0.03, fixed holding costs 1467 a month, resale commission 0.04,
  fixed resale fee 3000.
\<close>

theorem constants_fixed_defaults_overridable:
  "calculate_buyer_costs_call pp dp ir rc None = calculate_buyer_costs pp dp ir rc 4
   \<and> calculate_buyer_costs_call pp dp ir rc (Some mo) = calculate_buyer_costs pp dp ir rc mo
   \<and> calculate_seller_net_call p None = calculate_seller_net p True
   \<and> calculate_seller_net_call p (Some is_mls) = calculate_seller_net p is_mls
   \<and> listing_agent (calculate_seller_net p is_mls) = p * (3 / 100)
   \<and> buyer_agent (calculate_seller_net p True) = p * (2 / 100)
   \<and> prep_costs (calculate_seller_net p True) = 24500
   \<and> holding_costs (calculate_seller_net p True) = 2933
   \<and> transaction_costs (calculate_seller_net p is_mls) = p * (11 / 10000) + 1500
   \<and> closing_costs (calculate_buyer_costs pp dp ir rc mo) =
       loan_amount (calculate_buyer_costs pp dp ir rc mo) * (1 / 100) + 4300
   \<and> seller_agent (calculate_buyer_costs pp dp ir rc mo) = pp * (3 / 100)
   \<and> buy_holding_costs (calculate_buyer_costs pp dp ir rc mo) =
       interest (calculate_buyer_costs pp dp ir rc mo) + 1467 * mo
   \<and> (calculate_flip_profit b sp = Inr r \<longrightarrow>
        commission r = sp * (4 / 100) \<and> transfer_fees r = sp * (11 / 10000) + 3000)"
  by (auto simp add: calculate_buyer_costs_call_def calculate_seller_net_call_def
      calculate_seller_net_def calculate_buyer_costs_def calculate_flip_profit_def Let_def
      split: if_splits)

theorem constants_fixed_defaults_overridable_witness:
  "calculate_flip_profit (calculate_buyer_costs_call 900000 10 6 100000 None) 1100000 =
     Inr \<lparr> sell_price = 1100000, commission = 44000, transfer_fees = 4210,
           net_proceeds = 241790, profit = - 9678, roi = - (9678 / 251468) * 100 \<rparr>
   \<and> commission \<lparr> sell_price = 1100000, commission = 44000, transfer_fees = 4210,
           net_proceeds = 241790, profit = - 9678, roi = - (9678 / 251468) * 100 \<rparr>
       = 1100000 * (4 / 100)
   \<and> total_cash (calculate_buyer_costs_call 900000 10 6 100000 (Some 6)) = 262502"
  using constants_fixed_defaults_overridable
    [of 900000 10 6 100000 6 950000 True
        "calculate_buyer_costs_call 900000 10 6 100000 None" 1100000
        "\<lparr> sell_price = 1100000, commission = 44000, transfer_fees = 4210,
           net_proceeds = 241790, profit = - 9678, roi = - (9678 / 251468) * 100 \<rparr>"]
  by (simp add: calculate_buyer_costs_call_def calculate_buyer_costs_def
      calculate_flip_profit_def Let_def)

section \<open>The divisor of the flip calculation\<close>




section \<open>Down payment and loan\<close>

subsection \<open>Rounding to binary64\<close>

text \<open>
  What \<open>round_b64\<close> computes: \<open>floor_log2\<close> is the binary exponent of its argument,
  \<open>round_half_even\<close> is within a half of its argument, and so a number of magnitude at
  most \<open>B\<close> (with \<open>1 \<le> B \<le> 2^1000\<close>) rounds to a finite number within \<open>B / 2^53\<close> of
  it.
\<close>

lemma pow2_nonneg_exp: "0 \<le> e \<Longrightarrow> pow2 e = 2 ^ nat e"
  by (simp add: pow2_def)

lemma pow2_neg_exp: "e \<le> 0 \<Longrightarrow> pow2 e = 1 / 2 ^ nat (- e)"
  by (cases "e = 0") (simp_all add: pow2_def)

lemma floor_log2_bounds_ge1:
  assumes "1 \<le> x"
  shows "pow2 (floor_log2 x) \<le> x \<and> x < pow2 (floor_log2 x + 1)"
proof -
  define n where "n = \<lfloor>x\<rfloor>"
  define b where "b = bitlen n"
  have n: "1 \<le> n" using assms by (simp add: n_def)
  then have bounds: "2 ^ nat (b - 1) \<le> n" "n < 2 ^ nat b"
    using bitlen_bounds [of n] by (simp_all add: b_def)
  have b: "1 \<le> b"
  proof (rule ccontr)
    assume "\<not> 1 \<le> b"
    then have "nat b = 0" by simp
    with bounds(2) n show False by simp
  qed
  have fl: "floor_log2 x = b - 1"
    using assms by (simp add: floor_log2_def n_def b_def)
  have "(2::real) ^ nat (b - 1) = of_int (2 ^ nat (b - 1))" by simp
  also have "\<dots> \<le> of_int n" using bounds(1) by (simp only: of_int_le_iff)
  also have "\<dots> \<le> x" by (simp add: n_def)
  finally have lo: "pow2 (b - 1) \<le> x"
    using b by (simp add: pow2_nonneg_exp)
  have "n + 1 \<le> 2 ^ nat b" using bounds(2) by simp
  then have "of_int (n + 1) \<le> (of_int (2 ^ nat b) :: real)" by (simp only: of_int_le_iff)
  moreover have "x < of_int (n + 1)" by (simp add: n_def)
  ultimately have "x < 2 ^ nat b" by simp
  then have hi: "x < pow2 (b - 1 + 1)"
    using b by (simp add: pow2_nonneg_exp)
  show ?thesis using lo hi by (simp add: fl)
qed

lemma floor_log2_bounds_lt1:
  assumes "0 < x" and "x < 1"
  shows "pow2 (floor_log2 x) \<le> x \<and> x < pow2 (floor_log2 x + 1)"
proof -
  define m where "m = \<lceil>1 / x\<rceil>"
  define c where "c = bitlen (m - 1)"
  have inv: "1 < 1 / x" using assms by simp
  then have m: "2 \<le> m" unfolding m_def by linarith
  then have bounds: "2 ^ nat (c - 1) \<le> m - 1" "m - 1 < 2 ^ nat c"
    using bitlen_bounds [of "m - 1"] by (simp_all add: c_def)
  have c: "1 \<le> c"
  proof (rule ccontr)
    assume "\<not> 1 \<le> c"
    then have "nat c = 0" by simp
    with bounds(2) m show False by simp
  qed
  have fl: "floor_log2 x = - c"
    using assms by (simp add: floor_log2_def m_def c_def)
  have "m \<le> 2 ^ nat c" using bounds(2) by simp
  then have "of_int m \<le> (of_int (2 ^ nat c) :: real)" by (simp only: of_int_le_iff)
  then have "of_int m \<le> (2::real) ^ nat c" by simp
  moreover have "1 / x \<le> of_int m" by (simp add: m_def)
  ultimately have "1 / x \<le> 2 ^ nat c" by linarith
  then have "1 \<le> 2 ^ nat c * x" using assms(1) by (simp add: field_simps)
  then have lo: "pow2 (- c) \<le> x"
    using c by (simp add: pow2_neg_exp field_simps)
  have "of_int (m - 1) < 1 / x" unfolding m_def by linarith
  moreover have "(of_int (2 ^ nat (c - 1)) :: real) \<le> of_int (m - 1)"
    using bounds(1) by (simp only: of_int_le_iff)
  then have "(2::real) ^ nat (c - 1) \<le> of_int (m - 1)" by simp
  ultimately have "2 ^ nat (c - 1) < 1 / x" by linarith
  then have "2 ^ nat (c - 1) * x < 1" using assms(1) by (simp add: field_simps)
  then have "x < 1 / 2 ^ nat (c - 1)" by (simp add: field_simps)
  moreover have "pow2 (- c + 1) = 1 / 2 ^ nat (c - 1)"
    using c by (simp add: pow2_neg_exp)
  ultimately have hi: "x < pow2 (- c + 1)" by simp
  show ?thesis using lo hi by (simp add: fl)
qed

lemma floor_log2_bounds:
  assumes "0 < x"
  shows "pow2 (floor_log2 x) \<le> x \<and> x < pow2 (floor_log2 x + 1)"
  using assms floor_log2_bounds_ge1 floor_log2_bounds_lt1 by (cases "1 \<le> x") simp_all

lemma round_half_even_nearest: "\<bar>of_int (round_half_even q) - q\<bar> \<le> 1 / 2"
  unfolding round_half_even_def Let_def by (auto simp: abs_if) linarith+

lemma pow2_pos: "0 < pow2 e"
  by (simp add: pow2_def)

lemma pow2_powi: "pow2 e = 2 powi e"
  by (simp add: pow2_def power_int_def power_inverse [symmetric] inverse_eq_divide power_one_over)

lemma pow2_add: "pow2 (a + b) = pow2 a * pow2 b"
  by (simp add: pow2_powi power_int_add)

lemma pow2_mono: "a \<le> b \<Longrightarrow> pow2 a \<le> pow2 b"
  by (simp add: pow2_powi power_int_increasing)

lemma pow2_minus_52: "pow2 (m - 52) = pow2 m / 2 ^ 52"
proof -
  have "pow2 (m + (- 52)) = pow2 m * pow2 (- 52)" by (rule pow2_add)
  then show ?thesis by (simp add: pow2_def)
qed

lemma b64_ulp_le:
  assumes "x \<noteq> 0"
  shows "pow2 (max (floor_log2 \<bar>x\<bar>) (- 1022) - 52) \<le> max \<bar>x\<bar> 1 / 2 ^ 52"
proof -
  have "pow2 (floor_log2 \<bar>x\<bar>) \<le> \<bar>x\<bar>"
    using assms floor_log2_bounds [of "\<bar>x\<bar>"] by simp
  moreover have "pow2 (- 1022) \<le> 1"
    by (simp add: pow2_def)
  ultimately have "pow2 (max (floor_log2 \<bar>x\<bar>) (- 1022)) \<le> max \<bar>x\<bar> 1"
    by (simp add: max_def)
  then show ?thesis
    by (simp add: pow2_minus_52 divide_right_mono)
qed

lemma round_b64_bounded:
  assumes "\<bar>x\<bar> \<le> B" and "1 \<le> B" and "B \<le> 2 ^ 1000"
  shows "\<exists>y. round_b64 x = Some y \<and> \<bar>y - x\<bar> \<le> B / 2 ^ 53"
proof (cases "x = 0")
  case True
  with assms(2) show ?thesis by (simp add: round_b64_def)
next
  case False
  define u where "u = pow2 (max (floor_log2 \<bar>x\<bar>) (- 1022) - 52)"
  define y where "y = of_int (round_half_even (x / u)) * u"
  have u: "0 < u" by (simp add: u_def pow2_pos)
  have "u \<le> max \<bar>x\<bar> 1 / 2 ^ 52"
    unfolding u_def using False by (rule b64_ulp_le)
  also have "\<dots> \<le> B / 2 ^ 52"
    using assms(1,2) by (simp add: divide_right_mono)
  finally have u_le: "u \<le> B / 2 ^ 52" .
  have "y - x = (of_int (round_half_even (x / u)) - x / u) * u"
    using u by (simp add: y_def field_simps)
  then have "\<bar>y - x\<bar> = \<bar>of_int (round_half_even (x / u)) - x / u\<bar> * u"
    using u by (simp add: abs_mult)
  also have "\<dots> \<le> (1 / 2) * u"
    using round_half_even_nearest [of "x / u"] u by (intro mult_right_mono) simp_all
  also have "\<dots> \<le> B / 2 ^ 53"
    using u_le by simp
  finally have err: "\<bar>y - x\<bar> \<le> B / 2 ^ 53" .
  have "\<bar>y\<bar> \<le> \<bar>x\<bar> + \<bar>y - x\<bar>" by simp
  also have "\<dots> \<le> B + B / 2 ^ 53" using assms(1) err by simp
  also have "\<dots> \<le> 2 * B" using assms(2) by simp
  also have "\<dots> \<le> 2 * 2 ^ 1000" using assms(3) by simp
  also have "\<dots> < (2::real) ^ 1024" by simp
  finally have "\<not> 2 ^ 1024 \<le> \<bar>y\<bar>" by simp
  then have "round_b64 x = Some y"
    using False by (simp add: round_b64_def Let_def u_def y_def)
  with err show ?thesis by simp
qed

subsection \<open>The drift of the sum\<close>

text \<open>
  For a purchase price up to \<open>10^12\<close> and a down payment percentage between 0 and 100,
  the five roundings of lines 46 and 47 and of the sum leave the sum within a cent of
  the purchase price.
\<close>

lemma abs_sum3_le:
  fixes a b c :: real
  assumes "\<bar>a\<bar> \<le> A" and "\<bar>b\<bar> \<le> B" and "\<bar>c\<bar> \<le> C"
  shows "\<bar>a + b + c\<bar> \<le> A + B + C"
  using assms by linarith

lemma down_plus_loan_b64_drift:
  assumes pp: "0 \<le> pp" "pp \<le> 10 ^ 12" and d: "0 \<le> d" "d \<le> 100"
  shows "\<exists>s. add_b64 (down_payment_b64 pp d) (loan_amount_b64 pp d) = Some s
             \<and> \<bar>s - pp\<bar> \<le> 1 / 100"
proof -
  define eps :: real where "eps = 1 / 2 ^ 53"
  have eps: "0 < eps" "eps \<le> 1 / 1000" by (simp_all add: eps_def)
  \<comment> \<open>the quotient\<close>
  have "\<bar>d / 100\<bar> \<le> 1" using d by simp
  then obtain q where q: "round_b64 (d / 100) = Some q" "\<bar>q - d / 100\<bar> \<le> 1 / 2 ^ 53"
    using round_b64_bounded [of "d / 100" 1] by auto
  have q_err: "\<bar>q - d / 100\<bar> \<le> eps" using q(2) by (simp add: eps_def)
  have q_abs: "\<bar>q\<bar> \<le> 2" using q_err d eps by (simp add: abs_le_iff)
  \<comment> \<open>its complement\<close>
  have "\<bar>1 - q\<bar> \<le> 3" using q_abs by (simp add: abs_le_iff)
  then obtain t where t: "round_b64 (1 - q) = Some t" "\<bar>t - (1 - q)\<bar> \<le> 3 / 2 ^ 53"
    using round_b64_bounded [of "1 - q" 3] by auto
  have t_err: "\<bar>t - (1 - q)\<bar> \<le> 3 * eps" using t(2) by (simp add: eps_def)
  have t_abs: "\<bar>t\<bar> \<le> 4" using t_err q_err d eps by (simp add: abs_le_iff)
  have qt: "\<bar>q + t - 1\<bar> \<le> 3 * eps" using t_err by (simp add: abs_le_iff)
  \<comment> \<open>the two products\<close>
  have "\<bar>pp * q\<bar> \<le> 10 ^ 12 * 2"
    unfolding abs_mult using pp q_abs by (intro mult_mono) simp_all
  then obtain dn where dn: "round_b64 (pp * q) = Some dn"
      "\<bar>dn - pp * q\<bar> \<le> (2 * 10 ^ 12) / 2 ^ 53"
    using round_b64_bounded [of "pp * q" "2 * 10 ^ 12"] by auto
  have "\<bar>pp * t\<bar> \<le> 10 ^ 12 * 4"
    unfolding abs_mult using pp t_abs by (intro mult_mono) simp_all
  then obtain ln where ln: "round_b64 (pp * t) = Some ln"
      "\<bar>ln - pp * t\<bar> \<le> (4 * 10 ^ 12) / 2 ^ 53"
    using round_b64_bounded [of "pp * t" "4 * 10 ^ 12"] by auto
  have prod: "\<bar>pp * (q + t - 1)\<bar> \<le> 10 ^ 12 * (3 * eps)"
    unfolding abs_mult using pp qt eps by (intro mult_mono) simp_all
  \<comment> \<open>the sum\<close>
  have exact: "dn + ln - pp = (dn - pp * q) + (ln - pp * t) + pp * (q + t - 1)"
    by (simp add: algebra_simps)
  have "\<bar>dn + ln - pp\<bar> \<le> (2 * 10 ^ 12) / 2 ^ 53 + (4 * 10 ^ 12) / 2 ^ 53 + 10 ^ 12 * (3 * eps)"
    unfolding exact using dn(2) ln(2) prod by (rule abs_sum3_le)
  then have sum_err: "\<bar>dn + ln - pp\<bar> \<le> 9 * 10 ^ 12 * eps"
    by (simp add: eps_def)
  have small: "9 * 10 ^ 12 * eps \<le> 1" by (simp add: eps_def)
  have "\<bar>dn + ln - pp\<bar> \<le> 1" using sum_err small by (rule order_trans)
  then have "\<bar>dn + ln\<bar> \<le> pp + 1" using pp(1) by linarith
  also have "\<dots> \<le> 10 ^ 13" using pp(2) by simp
  finally have "\<bar>dn + ln\<bar> \<le> 10 ^ 13" .
  then obtain s where s: "round_b64 (dn + ln) = Some s" "\<bar>s - (dn + ln)\<bar> \<le> 10 ^ 13 / 2 ^ 53"
    using round_b64_bounded [of "dn + ln" "10 ^ 13"] by auto
  have "\<bar>s - pp\<bar> \<le> 10 ^ 13 / 2 ^ 53 + 9 * 10 ^ 12 * eps"
    using s(2) sum_err by linarith
  also have "\<dots> \<le> 1 / 100" by (simp add: eps_def)
  finally have "\<bar>s - pp\<bar> \<le> 1 / 100" .
  moreover have "add_b64 (down_payment_b64 pp d) (loan_amount_b64 pp d) = Some s"
    by (simp add: add_b64_def down_payment_b64_def loan_amount_b64_def q(1) t(1) dn(1) ln(1) s(1))
  ultimately show ?thesis by blast
qed

subsection \<open>A purchase at 30000 with 7 percent down\<close>

text \<open>
  The roundings of lines 46 and 47 at a purchase price of 30000 with 7 percent down, one
  operation at a time: \<^verbatim>\<open>7 / 100\<close>, \<^verbatim>\<open>1 - 0.07\<close>, the two products and the sum.
\<close>

lemma bitlen_values:
  "bitlen 1 = 1" "bitlen 14 = 4" "bitlen 2100 = 12" "bitlen 27899 = 15" "bitlen 29999 = 15"
  by code_simp+

lemma round_b64_seven_percent:
  "round_b64 (7 / 100) = Some (1261007895663739 / 18014398509481984)"
  by (simp add: round_b64_def floor_log2_def pow2_def round_half_even_def Let_def bitlen_values)

lemma round_b64_one_minus:
  "round_b64 (1 - 1261007895663739 / 18014398509481984) =
     Some (4188347653454561 / 4503599627370496)"
  by (simp add: round_b64_def floor_log2_def pow2_def round_half_even_def Let_def bitlen_values)

lemma round_b64_down:
  "round_b64 (30000 * (1261007895663739 / 18014398509481984)) = Some 2100"
  by (simp add: round_b64_def floor_log2_def pow2_def round_half_even_def Let_def bitlen_values)

lemma round_b64_loan:
  "round_b64 (30000 * (4188347653454561 / 4503599627370496)) =
     Some (7669093603737599 / 274877906944)"
  by (simp add: round_b64_def floor_log2_def pow2_def round_half_even_def Let_def bitlen_values)

lemma round_b64_sum:
  "round_b64 (2100 + 7669093603737599 / 274877906944) =
     Some (8246337208319999 / 274877906944)"
  by (simp add: round_b64_def floor_log2_def pow2_def round_half_even_def Let_def bitlen_values)

text \<open>
  Claim C3, as stated: for every valid buyer input the returned down payment and loan add
  up to the purchase price exactly, with no rounding drift. In the binary64 arithmetic
  Python computes them in, a purchase price of 30000 with 7 percent down gives a down
  payment of 2100.0 and a loan of 27899.999999999996 (\<open>7669093603737599 / 2^38\<close>); they
  add up to 29999.999999999996 (\<open>8246337208319999 / 2^38\<close>), as real numbers and as
  floats, and not to 30000.
\<close>

theorem down_plus_loan_counterexample:
  "down_payment_b64 30000 7 = Some 2100
   \<and> loan_amount_b64 30000 7 = Some (7669093603737599 / 274877906944)
   \<and> add_b64 (down_payment_b64 30000 7) (loan_amount_b64 30000 7) =
       Some (8246337208319999 / 274877906944)
   \<and> (8246337208319999 / 274877906944 :: real) \<noteq> 30000
   \<and> (2100 + 7669093603737599 / 274877906944 :: real) \<noteq> 30000"
proof -
  have down: "down_payment_b64 30000 7 = Some 2100"
    by (simp only: down_payment_b64_def round_b64_seven_percent option.case round_b64_down)
  have loan: "loan_amount_b64 30000 7 = Some (7669093603737599 / 274877906944)"
    by (simp only: loan_amount_b64_def round_b64_seven_percent option.case
        round_b64_one_minus round_b64_loan)
  have sum: "add_b64 (Some 2100) (Some (7669093603737599 / 274877906944)) =
      Some (8246337208319999 / 274877906944)"
    by (simp only: add_b64_def option.case round_b64_sum)
  have differ: "(8246337208319999 / 274877906944 :: real) \<noteq> 30000"
    "(2100 + 7669093603737599 / 274877906944 :: real) \<noteq> 30000"
    by simp_all
  show ?thesis
    unfolding down loan sum using differ by (intro conjI) (rule refl | assumption)+
qed

text \<open>
  Claim C3, amended: for every valid buyer input the formulas of the down payment and of
  the loan add up to the purchase price exactly, in exact arithmetic. In the binary64
  arithmetic of the code the returned down payment and loan need not add up to the
  purchase price exactly, but for a purchase price up to \<open>10^12\<close> their floating-point
  sum is a finite number within 0.01 of it: there is no drift beyond currency precision.
\<close>

theorem down_plus_loan:
  assumes "0 \<le> pp" and "0 \<le> dp" and "dp \<le> 100" and "0 \<le> ir" and "0 \<le> rc" and "0 < mo"
  shows "down_payment (calculate_buyer_costs pp dp ir rc mo)
           + loan_amount (calculate_buyer_costs pp dp ir rc mo)
         = purchase_price (calculate_buyer_costs pp dp ir rc mo)
       \<and> purchase_price (calculate_buyer_costs pp dp ir rc mo) = pp
       \<and> (pp \<le> 10 ^ 12 \<longrightarrow>
            (\<exists>s. add_b64 (down_payment_b64 pp dp) (loan_amount_b64 pp dp) = Some s
                 \<and> \<bar>s - pp\<bar> \<le> 1 / 100))"
proof -
  have "down_payment (calculate_buyer_costs pp dp ir rc mo)
           + loan_amount (calculate_buyer_costs pp dp ir rc mo)
         = purchase_price (calculate_buyer_costs pp dp ir rc mo)"
    by (simp add: calculate_buyer_costs_def Let_def algebra_simps)
  moreover have "purchase_price (calculate_buyer_costs pp dp ir rc mo) = pp"
    by (simp add: calculate_buyer_costs_def Let_def)
  moreover have "pp \<le> 10 ^ 12 \<longrightarrow>
      (\<exists>s. add_b64 (down_payment_b64 pp dp) (loan_amount_b64 pp dp) = Some s
           \<and> \<bar>s - pp\<bar> \<le> 1 / 100)"
    using assms(1-3) by (blast intro: down_plus_loan_b64_drift)
  ultimately show ?thesis by blast
qed

theorem down_plus_loan_witness:
  "down_payment (calculate_buyer_costs 30000 7 6 100000 4) = 2100
   \<and> loan_amount (calculate_buyer_costs 30000 7 6 100000 4) = 27900
   \<and> down_payment (calculate_buyer_costs 30000 7 6 100000 4)
       + loan_amount (calculate_buyer_costs 30000 7 6 100000 4) = 30000
   \<and> (\<exists>s. add_b64 (down_payment_b64 30000 7) (loan_amount_b64 30000 7) = Some s
          \<and> \<bar>s - 30000\<bar> \<le> 1 / 100)"
  using down_plus_loan [of 30000 7 6 100000 4]
  by (simp add: calculate_buyer_costs_def Let_def)

section \<open>Which calls return\<close>

subsection \<open>The operators on arguments of moderate size\<close>















subsection \<open>The seller calculation\<close>



subsection \<open>The buyer calculation\<close>



subsection \<open>The flip calculation\<close>


subsection \<open>An integer too large for a float\<close>



subsection \<open>No exception but the overflow\<close>














subsection \<open>Totality\<close>




end
